theory Spec2Isabelle
  imports Complex_Main "HOL-Library.Multiset"
begin

section \<open>The cost-projection engine of carcost\<close>

text \<open>
  The repository holds two variants of one script: \<^verbatim>\<open>car-cost.ts\<close> and a second file
  (\<^verbatim>\<open>src/unnamed/part_001\<close>) that extends it with per-model cost data. The functions
  \<^verbatim>\<open>lerp\<close>, \<^verbatim>\<open>interpolatePoints\<close> and \<^verbatim>\<open>calculateLoanPayments\<close> are the same text in
  both; \<^verbatim>\<open>calculateCostOfOwnership\<close> differs in one line (the total).

  Numbers. The script computes with JavaScript numbers. The fields of \<^verbatim>\<open>Settings\<close> and the
  control points are modelled as finite numbers: amounts, rates and the years of control
  points as \<open>real\<close>, the two year counts \<^verbatim>\<open>loanYears\<close> and \<^verbatim>\<open>expectedLife\<close> (read with
  \<^verbatim>\<open>parseInt\<close> by the command line) as \<open>int\<close>. The results of the loan computation and
  the yearly costs are values of \<open>number\<close>, which adds \<^verbatim>\<open>Infinity\<close>, \<^verbatim>\<open>-Infinity\<close> and
  \<^verbatim>\<open>NaN\<close> with the IEEE 754 rules for them. The loan formula leaves the finite numbers in
  three ways, and all three are part of the model: a division by zero, the overflow of
  \<^verbatim>\<open>Math.pow\<close>, of a product or of a quotient to an infinity (and their underflow to
  zero), and the sum \<^verbatim>\<open>1 + monthlyRate\<close> that rounds to \<open>1\<close> for a rate too small to change
  it (which makes the divisor of the formula zero). Apart from these, arithmetic on
  finite numbers is exact: the rounding of a result to 53 bits, the overflow of a sum of
  amounts near the largest double and the sign of zero are not modelled, and no
  statement below depends on them.
\<close>

subsection \<open>JavaScript numbers\<close>

datatype number = Fin real | PInf | NInf | NaN

text \<open>
  The range of doubles. A result of magnitude \<open>2 ^ 1024 - 2 ^ 970\<close> or more (half an ulp
  above the largest double) rounds to an infinity; a result of magnitude \<open>1 / 2 ^ 1075\<close>
  or less (half the smallest double) rounds to zero.
\<close>

definition overflow_bound :: real where
  "overflow_bound = 2 ^ 1024 - 2 ^ 970"

definition underflow_bound :: real where
  "underflow_bound = 1 / 2 ^ 1075"

definition double_of :: "real \<Rightarrow> number" where
  "double_of v =
     (if overflow_bound \<le> \<bar>v\<bar> then (if 0 < v then PInf else NInf)
      else if \<bar>v\<bar> \<le> underflow_bound then Fin 0
      else Fin v)"

instantiation number :: "{plus, uminus, minus, times, inverse}"
begin

fun plus_number :: "number \<Rightarrow> number \<Rightarrow> number" where
  "plus_number NaN b = NaN"
| "plus_number a NaN = NaN"
| "plus_number PInf NInf = NaN"
| "plus_number NInf PInf = NaN"
| "plus_number PInf b = PInf"
| "plus_number a PInf = PInf"
| "plus_number NInf b = NInf"
| "plus_number a NInf = NInf"
| "plus_number (Fin a) (Fin b) = Fin (a + b)"

fun uminus_number :: "number \<Rightarrow> number" where
  "uminus_number (Fin a) = Fin (- a)"
| "uminus_number PInf = NInf"
| "uminus_number NInf = PInf"
| "uminus_number NaN = NaN"

definition minus_number :: "number \<Rightarrow> number \<Rightarrow> number" where
  "minus_number a b = a + (- b)"

fun times_number :: "number \<Rightarrow> number \<Rightarrow> number" where
  "times_number NaN b = NaN"
| "times_number a NaN = NaN"
| "times_number PInf PInf = PInf"
| "times_number PInf NInf = NInf"
| "times_number NInf PInf = NInf"
| "times_number NInf NInf = PInf"
| "times_number PInf (Fin b) = (if b = 0 then NaN else if 0 < b then PInf else NInf)"
| "times_number NInf (Fin b) = (if b = 0 then NaN else if 0 < b then NInf else PInf)"
| "times_number (Fin a) PInf = (if a = 0 then NaN else if 0 < a then PInf else NInf)"
| "times_number (Fin a) NInf = (if a = 0 then NaN else if 0 < a then NInf else PInf)"
| "times_number (Fin a) (Fin b) = double_of (a * b)"

text \<open>
  Division: \<open>0 / 0\<close> and \<open>\<infinity> / \<infinity>\<close> are \<^verbatim>\<open>NaN\<close>; a nonzero finite number over zero is the
  infinity of its sign (the zero divisors of this program are positive zeros: \<open>1 - 1\<close>
  and the integer \<open>0\<close>). Products and quotients of finite numbers stay within the range
  of doubles by \<open>double_of\<close>; sums and differences are exact.
\<close>

fun divide_number :: "number \<Rightarrow> number \<Rightarrow> number" where
  "divide_number NaN b = NaN"
| "divide_number a NaN = NaN"
| "divide_number PInf PInf = NaN"
| "divide_number PInf NInf = NaN"
| "divide_number NInf PInf = NaN"
| "divide_number NInf NInf = NaN"
| "divide_number PInf (Fin b) = (if b < 0 then NInf else PInf)"
| "divide_number NInf (Fin b) = (if b < 0 then PInf else NInf)"
| "divide_number (Fin a) PInf = Fin 0"
| "divide_number (Fin a) NInf = Fin 0"
| "divide_number (Fin a) (Fin b) =
     (if b = 0 then (if a = 0 then NaN else if 0 < a then PInf else NInf)
      else double_of (a / b))"

definition inverse_number :: "number \<Rightarrow> number" where
  "inverse_number (a :: number) = divide (Fin 1) a"

instance ..

end

text \<open>
  \<^verbatim>\<open>Math.pow(x, n)\<close> for an integer exponent: \<open>1\<close> for \<open>n = 0\<close>; for a finite base,
  \<^verbatim>\<open>Infinity\<close> when the base is zero and the exponent negative, otherwise the power,
  which overflows to an infinity and underflows to zero outside the range of doubles.
\<close>

fun Math_pow :: "number \<Rightarrow> int \<Rightarrow> number" where
  "Math_pow (Fin x) n = (if x = 0 \<and> n < 0 then PInf else double_of (x powi n))"
| "Math_pow PInf n = (if n = 0 then Fin 1 else if 0 < n then PInf else Fin 0)"
| "Math_pow NInf n =
     (if n = 0 then Fin 1 else if n < 0 then Fin 0 else if even n then PInf else NInf)"
| "Math_pow NaN n = (if n = 0 then Fin 1 else NaN)"

text \<open>
  The double sum \<^verbatim>\<open>1 + x\<close>: for a finite \<open>x\<close> it is \<open>1\<close> when \<open>x\<close> is at most half an ulp
  of \<open>1\<close>, which is \<open>1 / 2 ^ 53\<close> above \<open>1\<close> and \<open>1 / 2 ^ 54\<close> below it (a tie rounds to
  the even neighbour \<open>1\<close>).
\<close>

fun one_plus :: "number \<Rightarrow> number" where
  "one_plus (Fin x) = (if - (1 / 2 ^ 54) \<le> x \<and> x \<le> 1 / 2 ^ 53 then Fin 1 else Fin (1 + x))"
| "one_plus a = a"

text \<open>\<open>isNumeric\<close>: a value that is neither \<^verbatim>\<open>NaN\<close> nor infinite.\<close>

fun isNumeric :: "number \<Rightarrow> bool" where
  "isNumeric (Fin a) = True"
| "isNumeric a = False"

text \<open>The comparisons \<^verbatim>\<open>x > 0\<close> and \<^verbatim>\<open>x < 0\<close>; both are false of \<^verbatim>\<open>NaN\<close>.\<close>

fun isPositive :: "number \<Rightarrow> bool" where
  "isPositive (Fin a) = (0 < a)"
| "isPositive PInf = True"
| "isPositive a = False"

fun isNegative :: "number \<Rightarrow> bool" where
  "isNegative (Fin a) = (a < 0)"
| "isNegative NInf = True"
| "isNegative a = False"

subsection \<open>Types of the script\<close>

text \<open>\<^verbatim>\<open>type GraphPoint = [number, number]; // [year, cost]\<close>\<close>

type_synonym GraphPoint = "real \<times> real"

text \<open>
  \<^verbatim>\<open>type Settings\<close>: every field is optional; \<open>None\<close> is the unset (\<^verbatim>\<open>undefined\<close>) field.
\<close>

record Settings =
  name :: "string option"
  modelId :: "int option"
  cost :: "real option"
  downPayment :: "real option"
  loanRate :: "real option"
  loanYears :: "int option"
  expectedLife :: "int option"
  insurancePoints :: "GraphPoint list option"
  yearlyPermitCost :: "real option"
  maintenancePoints :: "GraphPoint list option"

text \<open>The constants bound by the destructuring pattern of \<^verbatim>\<open>calculateCostOfOwnership\<close>.\<close>

record Resolved =
  cost_r :: real
  downPayment_r :: real
  loanRate_r :: real
  loanYears_r :: int
  expectedLife_r :: int
  insurancePoints_r :: "GraphPoint list"
  yearlyPermitCost_r :: real
  maintenancePoints_r :: "GraphPoint list"

text \<open>The returned object \<^verbatim>\<open>{ yearlyBreakdown: number[], total: number }\<close>.\<close>

record Breakdown =
  yearlyBreakdown :: "number list"
  total :: number

text \<open>
  The one exception the engine can throw: \<^verbatim>\<open>Array(length)\<close> throws
  \<^verbatim>\<open>RangeError: Invalid array length\<close> for a length that is not an integer from \<open>0\<close> to
  \<open>2 ^ 32 - 1\<close>. The exhaustion of memory by an array within this limit, or by the array
  that the loop of \<^verbatim>\<open>interpolatePoints\<close> grows, is not modelled.
\<close>

datatype error = RangeError

subsection \<open>Utility functions\<close>

text \<open>
  \<^verbatim>\<open>
  function lerp(start, end, perc) {
    const diff = start - end;
    return start - (diff * perc);
  }
  \<close>
\<close>

definition lerp :: "real \<Rightarrow> real \<Rightarrow> real \<Rightarrow> real" where
  "lerp start end' perc = (let diff = start - end' in start - (diff * perc))"

text \<open>\<^verbatim>\<open>Array(length).fill(v)\<close>\<close>

definition Array_fill :: "int \<Rightarrow> 'a \<Rightarrow> error + 'a list" where
  "Array_fill length' v =
     (if length' < 0 \<or> 4294967295 < length' then Inl RangeError
      else Inr (replicate (nat length') v))"

text \<open>
  \<^verbatim>\<open>Array.from({ length: n })\<close>: a negative length counts as \<open>0\<close>; the array is made by
  \<^verbatim>\<open>Array(length)\<close>, which throws for a length above \<open>2 ^ 32 - 1\<close>. Its elements are
  \<^verbatim>\<open>undefined\<close>.
\<close>

definition Array_from_length :: "int \<Rightarrow> error + unit list" where
  "Array_from_length n =
     (if 4294967295 < n then Inl RangeError else Inr (replicate (nat n) ()))"

text \<open>
  The inner loop of \<^verbatim>\<open>interpolatePoints\<close>: the first index \<open>i\<close> with
  \<^verbatim>\<open>points[i][0] <= year && points[i+1][0] > year\<close>, as the pair
  \<open>(points[i], points[i+1])\<close>; \<open>None\<close> when the loop ends without \<^verbatim>\<open>break\<close>.
\<close>

fun findSurrounding :: "GraphPoint list \<Rightarrow> real \<Rightarrow> (GraphPoint \<times> GraphPoint) option" where
  "findSurrounding (p # q # ps) year =
     (if fst p \<le> year \<and> fst q > year then Some (p, q) else findSurrounding (q # ps) year)"
| "findSurrounding ps year = None"

text \<open>
  \<open>left\<close> and \<open>right\<close> after the inner loop: they start as the first and the last point
  and are overwritten when the loop finds a pair.
\<close>

definition surrounding :: "GraphPoint list \<Rightarrow> real \<Rightarrow> GraphPoint \<times> GraphPoint" where
  "surrounding points year =
     (case findSurrounding points year of
        Some lr \<Rightarrow> lr
      | None \<Rightarrow> (points ! 0, points ! (length points - 1)))"

text \<open>
  The value pushed for one \<open>year\<close> by the body of the outer loop, from \<open>left\<close> and
  \<open>right\<close>:
  \<^verbatim>\<open>
  if (left[0] === right[0]) { result.push(left[1]); }
  else {
    const percentage = (year - left[0]) / (right[0] - left[0]);
    result.push(lerp(left[1], right[1], percentage));
  }
  \<close>
\<close>

definition segmentValue :: "GraphPoint \<Rightarrow> GraphPoint \<Rightarrow> real \<Rightarrow> real" where
  "segmentValue left right year =
     (if fst left = fst right then snd left
      else (let percentage = (year - fst left) / (fst right - fst left)
            in lerp (snd left) (snd right) percentage))"

definition yearValue :: "GraphPoint list \<Rightarrow> real \<Rightarrow> real" where
  "yearValue points year =
     (let (left, right) = surrounding points year in segmentValue left right year)"

text \<open>
  \<^verbatim>\<open>interpolatePoints(points, length)\<close>. The call \<^verbatim>\<open>points.sort((a, b) => a[0] - b[0])\<close>
  sorts the argument array itself, so the function returns the array as the caller finds
  it afterwards together with the result. The sort of the engine is stable, as
  \<open>sort_key\<close> is. The outer loop runs over the years \<open>0, \<dots>, length - 1\<close>.
\<close>

definition interpolatePoints ::
  "GraphPoint list \<Rightarrow> int \<Rightarrow> error + (GraphPoint list \<times> real list)" where
  "interpolatePoints points length' =
     (if length points = 0 then map_sum id (Pair points) (Array_fill length' 0)
      else if length points = 1 then map_sum id (Pair points) (Array_fill length' (snd (points ! 0)))
      else (let points = sort_key fst points
            in Inr (points, map (\<lambda>year. yearValue points (real year)) [0..<nat length'])))"

text \<open>
  \<^verbatim>\<open>
  function calculateLoanPayments(principal, rate, years) {
    const monthlyRate = rate / 12;
    const numPayments = years * 12;
    const monthlyPayment = principal * monthlyRate * Math.pow(1 + monthlyRate, numPayments) /
                           (Math.pow(1 + monthlyRate, numPayments) - 1);
    return monthlyPayment * 12 * years; // Total amount paid over the loan term
  }
  \<close>
\<close>

definition calculateLoanPayments :: "real \<Rightarrow> real \<Rightarrow> int \<Rightarrow> number" where
  "calculateLoanPayments principal' rate years =
     (let monthlyRate = Fin rate / Fin 12;
          numPayments = years * 12;
          monthlyPayment =
            Fin principal' * monthlyRate * Math_pow (one_plus monthlyRate) numPayments /
              (Math_pow (one_plus monthlyRate) numPayments - Fin 1)
      in monthlyPayment * Fin 12 * Fin (of_int years))"

subsection \<open>The main cost calculation\<close>

text \<open>
  The destructuring pattern with its defaults. A default applies when the field is unset,
  and the defaults are evaluated in the order of the pattern, so the default of
  \<^verbatim>\<open>insurancePoints\<close> reads the \<^verbatim>\<open>expectedLife\<close> bound before it.
\<close>

definition resolveDefaults :: "Settings \<Rightarrow> Resolved" where
  "resolveDefaults settings =
     (let cost' = (case cost settings of None \<Rightarrow> 0 | Some v \<Rightarrow> v);
          downPayment' = (case downPayment settings of None \<Rightarrow> 0 | Some v \<Rightarrow> v);
          loanRate' = (case loanRate settings of None \<Rightarrow> 3 / 100 | Some v \<Rightarrow> v);
          loanYears' = (case loanYears settings of None \<Rightarrow> 4 | Some v \<Rightarrow> v);
          expectedLife' = (case expectedLife settings of None \<Rightarrow> 20 | Some v \<Rightarrow> v);
          insurancePoints' = (case insurancePoints settings of
                                None \<Rightarrow> [(0, 14000), (of_int expectedLife' - 1, 6500)]
                              | Some v \<Rightarrow> v);
          yearlyPermitCost' = (case yearlyPermitCost settings of None \<Rightarrow> 2643 | Some v \<Rightarrow> v);
          maintenancePoints' = (case maintenancePoints settings of
                                  None \<Rightarrow> [(0, 1000), (5, 2000), (10, 3500), (15, 5000)]
                                | Some v \<Rightarrow> v)
      in \<lparr>cost_r = cost', downPayment_r = downPayment', loanRate_r = loanRate',
          loanYears_r = loanYears', expectedLife_r = expectedLife',
          insurancePoints_r = insurancePoints', yearlyPermitCost_r = yearlyPermitCost',
          maintenancePoints_r = maintenancePoints'\<rparr>)"

text \<open>\<^verbatim>\<open>const principal = cost - downPayment;\<close>\<close>

definition principal_of :: "Resolved \<Rightarrow> real" where
  "principal_of r = cost_r r - downPayment_r r"

text \<open>
  \<^verbatim>\<open>const totalLoanPayment = calculateLoanPayments(principal, loanRate, loanYears);\<close>
  \<^verbatim>\<open>const yearlyLoanPayment = totalLoanPayment / loanYears;\<close>
\<close>

definition totalLoanPayment :: "Resolved \<Rightarrow> number" where
  "totalLoanPayment r = calculateLoanPayments (principal_of r) (loanRate_r r) (loanYears_r r)"

definition yearlyLoanPayment :: "Resolved \<Rightarrow> number" where
  "yearlyLoanPayment r = totalLoanPayment r / Fin (of_int (loanYears_r r))"

text \<open>
  An indexed read \<^verbatim>\<open>xs[i]\<close> used as a summand: past the end it is \<^verbatim>\<open>undefined\<close>, which
  makes the sum \<^verbatim>\<open>NaN\<close>.
\<close>

definition readAt :: "real list \<Rightarrow> nat \<Rightarrow> number" where
  "readAt xs i = (if i < length xs then Fin (xs ! i) else NaN)"

text \<open>
  The callback of \<^verbatim>\<open>.map((_, i) => ...)\<close>:
  \<^verbatim>\<open>
  let yearCost = insuranceCosts[i] + yearlyPermitCost + maintenanceCosts[i];
  if (i < loanYears) { yearCost += yearlyLoanPayment; }
  return yearCost;
  \<close>
\<close>

definition yearCost :: "Resolved \<Rightarrow> real list \<Rightarrow> real list \<Rightarrow> nat \<Rightarrow> number" where
  "yearCost r insuranceCosts maintenanceCosts i =
     (let yearCost' = readAt insuranceCosts i + Fin (yearlyPermitCost_r r) + readAt maintenanceCosts i
      in if int i < loanYears_r r then yearCost' + yearlyLoanPayment r else yearCost')"

text \<open>
  \<^verbatim>\<open>Array.from({ length: expectedLife }).map((_, i) => ...)\<close>: the callback is applied
  to every index of the array.
\<close>

definition yearlyPayments ::
  "Resolved \<Rightarrow> real list \<Rightarrow> real list \<Rightarrow> error + number list" where
  "yearlyPayments r insuranceCosts maintenanceCosts =
     (case Array_from_length (expectedLife_r r) of
        Inl e \<Rightarrow> Inl e
      | Inr arr \<Rightarrow> Inr (map (yearCost r insuranceCosts maintenanceCosts) [0..<length arr]))"

text \<open>
  The settings object after the call: a curve that the caller supplied has been sorted in
  place by \<^verbatim>\<open>interpolatePoints\<close>; a default curve is a fresh array of the function.
\<close>

definition settingsAfter :: "Settings \<Rightarrow> GraphPoint list \<Rightarrow> GraphPoint list \<Rightarrow> Settings" where
  "settingsAfter settings ins mnt =
     settings\<lparr>insurancePoints := map_option (\<lambda>_. ins) (insurancePoints settings),
              maintenancePoints := map_option (\<lambda>_. mnt) (maintenancePoints settings)\<rparr>"

text \<open>
  \<^verbatim>\<open>calculateCostOfOwnership\<close> of \<^verbatim>\<open>car-cost.ts\<close>:
  \<^verbatim>\<open>const total = yearlyPayments.reduce((acc, v) => acc + v, 0);\<close>
\<close>

definition calculateCostOfOwnership :: "Settings \<Rightarrow> error + (Settings \<times> Breakdown)" where
  "calculateCostOfOwnership settings =
     (let r = resolveDefaults settings in
      case interpolatePoints (insurancePoints_r r) (expectedLife_r r) of
        Inl e \<Rightarrow> Inl e
      | Inr (ins, insuranceCosts) \<Rightarrow>
          (case interpolatePoints (maintenancePoints_r r) (expectedLife_r r) of
             Inl e \<Rightarrow> Inl e
           | Inr (mnt, maintenanceCosts) \<Rightarrow>
               (case yearlyPayments r insuranceCosts maintenanceCosts of
                  Inl e \<Rightarrow> Inl e
                | Inr yearlyPayments' \<Rightarrow>
                    (let total' = foldl (+) (Fin 0) yearlyPayments'
                     in Inr (settingsAfter settings ins mnt,
                             \<lparr>yearlyBreakdown = yearlyPayments', total = total'\<rparr>)))))"

text \<open>
  \<^verbatim>\<open>calculateCostOfOwnership\<close> of the second variant (\<^verbatim>\<open>src/unnamed/part_001\<close>):
  \<^verbatim>\<open>const total = yearlyPayments.reduce((acc, v) => acc + v, 0) + downPayment;\<close>
\<close>

definition calculateCostOfOwnership_part_001 :: "Settings \<Rightarrow> error + (Settings \<times> Breakdown)" where
  "calculateCostOfOwnership_part_001 settings =
     (let r = resolveDefaults settings in
      case interpolatePoints (insurancePoints_r r) (expectedLife_r r) of
        Inl e \<Rightarrow> Inl e
      | Inr (ins, insuranceCosts) \<Rightarrow>
          (case interpolatePoints (maintenancePoints_r r) (expectedLife_r r) of
             Inl e \<Rightarrow> Inl e
           | Inr (mnt, maintenanceCosts) \<Rightarrow>
               (case yearlyPayments r insuranceCosts maintenanceCosts of
                  Inl e \<Rightarrow> Inl e
                | Inr yearlyPayments' \<Rightarrow>
                    (let total' = foldl (+) (Fin 0) yearlyPayments' + Fin (downPayment_r r)
                     in Inr (settingsAfter settings ins mnt,
                             \<lparr>yearlyBreakdown = yearlyPayments', total = total'\<rparr>)))))"

text \<open>\<^verbatim>\<open>const settings: Settings = {};\<close> of \<^verbatim>\<open>commandSimulate\<close>: no field is set.\<close>

definition emptySettings :: Settings where
  "emptySettings =
     \<lparr>name = None, modelId = None, cost = None, downPayment = None, loanRate = None,
      loanYears = None, expectedLife = None, insurancePoints = None,
      yearlyPermitCost = None, maintenancePoints = None\<rparr>"

subsection \<open>The specification's reading of the interpolator\<close>

text \<open>
  The specification names the pair used when no consecutive pair surrounds the year:
  the last two sorted points beyond the rightmost point, the first two below the
  leftmost one. These two definitions follow its words, to be compared with
  \<open>surrounding\<close>.
\<close>

definition spec_lastTwo :: "GraphPoint list \<Rightarrow> GraphPoint \<times> GraphPoint" where
  "spec_lastTwo points = (points ! (length points - 2), points ! (length points - 1))"

definition spec_firstTwo :: "GraphPoint list \<Rightarrow> GraphPoint \<times> GraphPoint" where
  "spec_firstTwo points = (points ! 0, points ! 1)"

section \<open>Properties\<close>

subsection \<open>Arithmetic of numbers and the interpolator: auxiliary facts\<close>

lemma Fin_minus: "Fin a - Fin b = Fin (a - b)"
  by (simp add: minus_number_def)

lemma interpolatePoints_many:
  "2 \<le> length pts \<Longrightarrow>
   interpolatePoints pts n =
     Inr (sort_key fst pts, map (\<lambda>year. yearValue (sort_key fst pts) (real year)) [0..<nat n])"
  by (cases pts) (auto simp: interpolatePoints_def Let_def)

lemma interpolatePoints_few:
  "length pts < 2 \<Longrightarrow>
   interpolatePoints pts n =
     (if n < 0 \<or> 4294967295 < n then Inl RangeError
      else Inr (pts, replicate (nat n) (case pts of [] \<Rightarrow> 0 | p # _ \<Rightarrow> snd p)))"
  by (cases pts) (auto simp: interpolatePoints_def Array_fill_def)

lemma interpolatePoints_Inl_iff:
  "(interpolatePoints pts n = Inl e) \<longleftrightarrow> ((n < 0 \<or> 4294967295 < n) \<and> length pts < 2)"
proof (cases "length pts < 2")
  case True
  then show ?thesis by (cases e) (simp add: interpolatePoints_few)
next
  case False
  then show ?thesis by (simp add: interpolatePoints_many)
qed

lemma interpolatePoints_length:
  "interpolatePoints pts n = Inr (pts', r) \<Longrightarrow> length r = nat n"
  by (cases "length pts < 2") (auto simp: interpolatePoints_few interpolatePoints_many split: if_splits)

lemma interpolatePoints_points:
  "interpolatePoints pts n = Inr (pts', r) \<Longrightarrow> pts' = sort_key fst pts"
proof (cases "length pts < 2")
  case True
  assume a: "interpolatePoints pts n = Inr (pts', r)"
  from True have "sorted (map fst pts)"
    by (cases pts) (auto simp: Suc_less_eq2 less_Suc_eq)
  then have "sort_key fst pts = pts" by (rule sort_key_id_if_sorted)
  with a True show ?thesis by (auto simp: interpolatePoints_few split: if_splits)
next
  case False
  assume "interpolatePoints pts n = Inr (pts', r)"
  with False show ?thesis by (simp add: interpolatePoints_many)
qed

lemma findSurrounding_bracket:
  "sorted (map fst pts) \<Longrightarrow> Suc i < length pts \<Longrightarrow> fst (pts ! i) \<le> y \<Longrightarrow>
   y < fst (pts ! Suc i) \<Longrightarrow> findSurrounding pts y = Some (pts ! i, pts ! Suc i)"
proof (induction pts y arbitrary: i rule: findSurrounding.induct)
  case (1 p q ps year)
  show ?case
  proof (cases "fst p \<le> year \<and> year < fst q")
    case True
    have "i = 0"
    proof (rule ccontr)
      assume "i \<noteq> 0"
      then obtain j where j: "i = Suc j" by (cases i) auto
      with "1.prems" have "j < length (q # ps)" by simp
      then have "(q # ps) ! j \<in> set (q # ps)" by (rule nth_mem)
      with "1.prems"(1) have "fst q \<le> fst ((q # ps) ! j)" by auto
      with "1.prems"(3) j True show False by simp
    qed
    with True show ?thesis by simp
  next
    case False
    with "1.prems" have "i \<noteq> 0" by (cases i) auto
    then obtain j where j: "i = Suc j" by (cases i) auto
    from "1.prems" j have "findSurrounding (q # ps) year = Some ((q # ps) ! j, (q # ps) ! Suc j)"
      by (intro "1.IH"[OF False]) auto
    with False j show ?thesis by auto
  qed
qed simp_all

lemma findSurrounding_beyond:
  "\<forall>p \<in> set pts. fst p \<le> y \<Longrightarrow> findSurrounding pts y = None"
  by (induction pts y rule: findSurrounding.induct) auto

lemma findSurrounding_below:
  "\<forall>p \<in> set pts. y < fst p \<Longrightarrow> findSurrounding pts y = None"
  by (induction pts y rule: findSurrounding.induct) auto

lemma interpolatePoints_sorted_nth:
  assumes "2 \<le> length pts" "sorted (map fst pts)" "int y < n"
  shows "\<exists>r. interpolatePoints pts n = Inr (pts, r) \<and> length r = nat n \<and> r ! y = yearValue pts (real y)"
proof -
  from assms(2) have s: "sort_key fst pts = pts" by (rule sort_key_id_if_sorted)
  from assms(3) have y: "y < nat n" by linarith
  from assms(1) s y show ?thesis
    by (simp add: interpolatePoints_many)
qed

lemma lerp_alt: "lerp a b t = a + t * (b - a)"
  by (simp add: lerp_def algebra_simps)

subsection \<open>Empty and one-point curves\<close>

text \<open>
  Claim C9 says that for every length \<open>n \<ge> 0\<close> the empty curve gives \<open>n\<close> zeros and a
  one-point curve \<open>n\<close> copies of its cost. Both results are made by \<^verbatim>\<open>Array(length)\<close>,
  which throws for a length above \<open>2 ^ 32 - 1\<close>: for \<open>n = 4294967296\<close> the call raises
  a \<^verbatim>\<open>RangeError\<close> for the empty curve and for a one-point curve.
\<close>

theorem interpolatePoints_length_limit:
  "interpolatePoints [] 4294967296 = Inl RangeError \<and>
   interpolatePoints [(7, 42)] 4294967296 = Inl RangeError"
  by (simp add: interpolatePoints_def Array_fill_def)

text \<open>
  Claim C9, amended. For every length \<open>n\<close> with \<open>0 \<le> n < 2 ^ 32\<close>, \<^verbatim>\<open>interpolatePoints\<close> of
  the empty curve returns \<open>n\<close> zeros and of a one-point curve \<open>[(y, c)]\<close> returns \<open>n\<close>
  copies of \<open>c\<close>; for \<open>n = 0\<close> the result is the empty sequence in both cases. The points
  array is returned as it was.
\<close>

theorem interpolatePoints_empty_single:
  "0 \<le> n \<Longrightarrow> n < 4294967296 \<Longrightarrow>
     interpolatePoints [] n = Inr ([], replicate (nat n) 0) \<and>
     interpolatePoints [(y, c)] n = Inr ([(y, c)], replicate (nat n) c) \<and>
     interpolatePoints [] 0 = Inr ([], []) \<and>
     interpolatePoints [(y, c)] 0 = Inr ([(y, c)], [])"
  by (simp add: interpolatePoints_def Array_fill_def)

theorem interpolatePoints_empty_single_witness:
  "(0::int) \<le> 3 \<and> (3::int) < 4294967296 \<and>
     interpolatePoints [] 3 = Inr ([], [0, 0, 0]) \<and>
     interpolatePoints [(7, 42)] 3 = Inr ([(7, 42)], [42, 42, 42])"
  using interpolatePoints_empty_single [of 3 7 42] by (simp add: numeral_3_eq_3)

subsection \<open>Linear interpolation between two consecutive points\<close>

text \<open>
  Claim C7. For a curve sorted by year and a year \<open>y\<close> below the length with
  \<open>left.year \<le> y < right.year\<close> for two consecutive points (so that the two years
  differ), the value at index \<open>y\<close> is \<open>left.cost + t * (right.cost - left.cost)\<close> with
  \<open>t = (y - left.year) / (right.year - left.year)\<close>. In particular the curve
  \<open>[(0,100),(10,200)]\<close> with length \<open>11\<close> has the value \<open>150\<close> at index \<open>5\<close> and the
  values \<open>100\<close> and \<open>200\<close> at the indices \<open>0\<close> and \<open>10\<close>.
\<close>

theorem interpolatePoints_linear:
  "(sorted (map fst pts) \<and> Suc i < length pts \<and> fst (pts ! i) \<le> real y \<and>
    real y < fst (pts ! Suc i) \<and> int y < n \<longrightarrow>
      (\<exists>r. interpolatePoints pts n = Inr (pts, r) \<and>
           r ! y = snd (pts ! i) +
                   ((real y - fst (pts ! i)) / (fst (pts ! Suc i) - fst (pts ! i))) *
                     (snd (pts ! Suc i) - snd (pts ! i)))) \<and>
   (\<exists>r. interpolatePoints [(0, 100), (10, 200)] 11 = Inr ([(0, 100), (10, 200)], r) \<and>
        r ! 5 = 150 \<and> r ! 0 = 100 \<and> r ! 10 = 200)"
proof (intro conjI impI)
  assume a: "sorted (map fst pts) \<and> Suc i < length pts \<and> fst (pts ! i) \<le> real y \<and>
    real y < fst (pts ! Suc i) \<and> int y < n"
  then have f: "findSurrounding pts (real y) = Some (pts ! i, pts ! Suc i)"
    by (intro findSurrounding_bracket) auto
  from a have ne: "fst (pts ! i) \<noteq> fst (pts ! Suc i)" by auto
  from f ne have v: "yearValue pts (real y) = snd (pts ! i) +
                   ((real y - fst (pts ! i)) / (fst (pts ! Suc i) - fst (pts ! i))) *
                     (snd (pts ! Suc i) - snd (pts ! i))"
    by (simp add: yearValue_def surrounding_def segmentValue_def lerp_alt)
  from a have "2 \<le> length pts" by linarith
  with a obtain r where "interpolatePoints pts n = Inr (pts, r)" "r ! y = yearValue pts (real y)"
    using interpolatePoints_sorted_nth [of pts y n] by auto
  with v show "\<exists>r. interpolatePoints pts n = Inr (pts, r) \<and>
           r ! y = snd (pts ! i) +
                   ((real y - fst (pts ! i)) / (fst (pts ! Suc i) - fst (pts ! i))) *
                     (snd (pts ! Suc i) - snd (pts ! i))"
    by auto
next
  have "interpolatePoints [(0, 100), (10, 200)] 11 =
          Inr ([(0, 100), (10, 200)], [100, 110, 120, 130, 140, 150, 160, 170, 180, 190, 200])"
    by (simp add: interpolatePoints_def yearValue_def surrounding_def segmentValue_def
          lerp_def upt_rec)
  then show "\<exists>r. interpolatePoints [(0, 100), (10, 200)] 11 = Inr ([(0, 100), (10, 200)], r) \<and>
        r ! 5 = 150 \<and> r ! 0 = 100 \<and> r ! 10 = 200"
    by simp
qed

theorem interpolatePoints_linear_witness:
  "sorted (map fst ([(0, 100), (4, 300), (10, 200)] :: GraphPoint list)) \<and>
   Suc 0 < length ([(0, 100), (4, 300), (10, 200)] :: GraphPoint list) \<and>
   fst (([(0, 100), (4, 300), (10, 200)] :: GraphPoint list) ! 0) \<le> real 1 \<and>
   real 1 < fst (([(0, 100), (4, 300), (10, 200)] :: GraphPoint list) ! Suc 0) \<and>
   int 1 < 3 \<and>
   (\<exists>r. interpolatePoints [(0, 100), (4, 300), (10, 200)] 3 =
          Inr ([(0, 100), (4, 300), (10, 200)], r) \<and>
        r ! 1 = 100 + ((1 - 0) / (4 - 0)) * (300 - 100))"
  using interpolatePoints_linear [of "[(0, 100), (4, 300), (10, 200)]" 0 1 3] by simp

subsection \<open>Years outside the control points\<close>

text \<open>
  Claim C3 says that beyond the rightmost control point the last two sorted points are
  the pair in use, and below the leftmost one the first two. The loop starts from
  \<^verbatim>\<open>left = points[0]\<close> and \<^verbatim>\<open>right = points[points.length - 1]\<close> and keeps them when no
  consecutive pair surrounds the year. On the curve \<open>[(0,0),(1,0),(2,10)]\<close> the year \<open>3\<close>
  gets the pair \<open>((0,0),(2,10))\<close> and the value \<open>15\<close>, where the last two points give
  \<open>20\<close>; on \<open>[(2,0),(3,10),(4,10)]\<close> the year \<open>0\<close> gets the pair \<open>((2,0),(4,10))\<close> and the
  value \<open>-10\<close>, where the first two points give \<open>-20\<close>.
\<close>

theorem surrounding_not_last_two:
  "surrounding [(0, 0), (1, 0), (2, 10)] 3 \<noteq> spec_lastTwo [(0, 0), (1, 0), (2, 10)] \<and>
   surrounding [(0, 0), (1, 0), (2, 10)] 3 = ((0, 0), (2, 10)) \<and>
   spec_lastTwo [(0, 0), (1, 0), (2, 10)] = ((1, 0), (2, 10)) \<and>
   interpolatePoints [(0, 0), (1, 0), (2, 10)] 4 = Inr ([(0, 0), (1, 0), (2, 10)], [0, 0, 10, 15]) \<and>
   segmentValue (1, 0) (2, 10) 3 = 20 \<and>
   surrounding [(2, 0), (3, 10), (4, 10)] 0 \<noteq> spec_firstTwo [(2, 0), (3, 10), (4, 10)] \<and>
   surrounding [(2, 0), (3, 10), (4, 10)] 0 = ((2, 0), (4, 10)) \<and>
   spec_firstTwo [(2, 0), (3, 10), (4, 10)] = ((2, 0), (3, 10)) \<and>
   interpolatePoints [(2, 0), (3, 10), (4, 10)] 1 = Inr ([(2, 0), (3, 10), (4, 10)], [- 10]) \<and>
   segmentValue (2, 0) (3, 10) 0 = - 20"
  by (simp add: interpolatePoints_def yearValue_def surrounding_def segmentValue_def
        spec_lastTwo_def spec_firstTwo_def lerp_def upt_rec)

text \<open>
  Claim C3, amended. For a curve of at least two points sorted by year and a year \<open>y\<close>
  below the length such that no control point has a year greater than \<open>y\<close>, or every
  control point has a year greater than \<open>y\<close>, the pair in use is the first and the last
  sorted point: the value lies on the straight line through these two points (it is the
  first cost when their years agree). For a curve of exactly two points this pair is both
  the last two and the first two points.
\<close>

theorem surrounding_first_last:
  assumes "2 \<le> length pts" and "sorted (map fst pts)" and "int y < n"
    and "(\<forall>p \<in> set pts. fst p \<le> real y) \<or> (\<forall>p \<in> set pts. real y < fst p)"
  shows "surrounding pts (real y) = (pts ! 0, pts ! (length pts - 1)) \<and>
         (\<exists>r. interpolatePoints pts n = Inr (pts, r) \<and>
              r ! y = (if fst (pts ! 0) = fst (pts ! (length pts - 1)) then snd (pts ! 0)
                       else snd (pts ! 0) +
                            ((real y - fst (pts ! 0)) / (fst (pts ! (length pts - 1)) - fst (pts ! 0))) *
                              (snd (pts ! (length pts - 1)) - snd (pts ! 0)))) \<and>
         (length pts = 2 \<longrightarrow> surrounding pts (real y) = spec_lastTwo pts \<and>
                               surrounding pts (real y) = spec_firstTwo pts)"
proof -
  from assms(4) have f: "findSurrounding pts (real y) = None"
    using findSurrounding_beyond findSurrounding_below by blast
  then have s: "surrounding pts (real y) = (pts ! 0, pts ! (length pts - 1))"
    by (simp add: surrounding_def)
  from assms(1-3) obtain r where r: "interpolatePoints pts n = Inr (pts, r)"
      "r ! y = yearValue pts (real y)"
    using interpolatePoints_sorted_nth [of pts y n] by auto
  from s have "yearValue pts (real y) =
      (if fst (pts ! 0) = fst (pts ! (length pts - 1)) then snd (pts ! 0)
       else snd (pts ! 0) +
            ((real y - fst (pts ! 0)) / (fst (pts ! (length pts - 1)) - fst (pts ! 0))) *
              (snd (pts ! (length pts - 1)) - snd (pts ! 0)))"
    by (simp add: yearValue_def segmentValue_def lerp_alt)
  with r s show ?thesis
    by (auto simp: spec_lastTwo_def spec_firstTwo_def)
qed

theorem surrounding_first_last_witness:
  "2 \<le> length ([(0, 0), (1, 0), (2, 10)] :: GraphPoint list) \<and>
   sorted (map fst ([(0, 0), (1, 0), (2, 10)] :: GraphPoint list)) \<and>
   int 3 < 4 \<and>
   fst ((0, 0) :: GraphPoint) \<le> real 3 \<and> fst ((1, 0) :: GraphPoint) \<le> real 3 \<and>
   fst ((2, 10) :: GraphPoint) \<le> real 3 \<and>
   surrounding [(0, 0), (1, 0), (2, 10)] (real 3) = ((0, 0), (2, 10)) \<and>
   (\<exists>r. interpolatePoints [(0, 0), (1, 0), (2, 10)] 4 = Inr ([(0, 0), (1, 0), (2, 10)], r) \<and>
        r ! 3 = 15)"
  using surrounding_first_last [of "[(0, 0), (1, 0), (2, 10)]" 3 4] by simp

subsection \<open>The effect on the caller's points\<close>

text \<open>
  Claim C4 says that the caller's points hold the same control points in the same order
  after the call. The function sorts the array it is given, not a copy: called on
  \<open>[(10,200),(0,100)]\<close> it leaves \<open>[(0,100),(10,200)]\<close> to the caller.
\<close>

theorem interpolatePoints_mutates:
  "map_sum id fst (interpolatePoints [(10, 200), (0, 100)] 1) \<noteq> Inr [(10, 200), (0, 100)] \<and>
   interpolatePoints [(10, 200), (0, 100)] 1 = Inr ([(0, 100), (10, 200)], [100])"
  by (simp add: interpolatePoints_def yearValue_def surrounding_def segmentValue_def lerp_def)

text \<open>
  Claim C4, amended. After a call that returns, the caller's points hold the same control
  points (as a multiset) sorted ascending by year, points of equal year in their
  original relative order; the sequence is unchanged exactly when it was sorted by year
  before the call, which includes every curve of fewer than two points.
\<close>

theorem interpolatePoints_sorts_in_place:
  assumes "interpolatePoints pts n = Inr (pts', r)"
  shows "mset pts' = mset pts \<and> sorted (map fst pts') \<and>
         (\<forall>k. filter (\<lambda>p. fst p = k) pts' = filter (\<lambda>p. fst p = k) pts) \<and>
         (pts' = pts \<longleftrightarrow> sorted (map fst pts)) \<and>
         (length pts < 2 \<longrightarrow> pts' = pts)"
proof -
  from assms have p: "pts' = sort_key fst pts" by (rule interpolatePoints_points)
  have id: "sorted (map fst pts) \<Longrightarrow> sort_key fst pts = pts" by (rule sort_key_id_if_sorted)
  have srt: "sorted (map fst (sort_key fst pts))" by simp
  have few: "length pts < 2 \<Longrightarrow> sorted (map fst pts)"
    by (cases pts) (auto simp: less_Suc_eq)
  have "mset pts' = mset pts" using p by simp
  moreover have "sorted (map fst pts')" using p srt by simp
  moreover have "\<forall>k. filter (\<lambda>p. fst p = k) pts' = filter (\<lambda>p. fst p = k) pts"
    using p by (simp add: sort_key_stable)
  moreover have "pts' = pts \<longleftrightarrow> sorted (map fst pts)"
  proof
    assume "pts' = pts"
    with p srt show "sorted (map fst pts)" by metis
  next
    assume "sorted (map fst pts)"
    with p id show "pts' = pts" by simp
  qed
  moreover have "length pts < 2 \<longrightarrow> pts' = pts" using p id few by simp
  ultimately show ?thesis by blast
qed

theorem interpolatePoints_sorts_in_place_witness:
  "interpolatePoints [(10, 200), (0, 100)] 1 = Inr ([(0, 100), (10, 200)], [100]) \<and>
   mset [(0, 100), (10, 200)] = mset ([(10, 200), (0, 100)] :: GraphPoint list) \<and>
   sorted (map fst ([(0, 100), (10, 200)] :: GraphPoint list)) \<and>
   \<not> sorted (map fst ([(10, 200), (0, 100)] :: GraphPoint list))"
proof -
  have e: "interpolatePoints [(10, 200), (0, 100)] 1 = Inr ([(0, 100), (10, 200)], [100])"
    by (simp add: interpolatePoints_def yearValue_def surrounding_def segmentValue_def lerp_def)
  from interpolatePoints_sorts_in_place [OF e] e show ?thesis by simp
qed

subsection \<open>The range and the sign of numbers: auxiliary facts\<close>

lemma overflow_bound_gt_one: "1 < overflow_bound"
  by (simp add: overflow_bound_def)

lemma underflow_bound_lt_one: "underflow_bound < 1"
  by (simp add: underflow_bound_def)

lemma underflow_bound_pos: "0 < underflow_bound"
  by (simp add: underflow_bound_def)

lemma double_of_zero: "double_of 0 = Fin 0"
  using overflow_bound_gt_one underflow_bound_pos by (simp add: double_of_def)

lemma double_of_one: "double_of 1 = Fin 1"
  using overflow_bound_gt_one underflow_bound_lt_one by (simp add: double_of_def)

lemma double_of_in_range:
  "underflow_bound < \<bar>v\<bar> \<Longrightarrow> \<bar>v\<bar> < overflow_bound \<Longrightarrow> double_of v = Fin v"
  by (simp add: double_of_def)

lemma double_of_not_positive: "v \<le> 0 \<Longrightarrow> \<not> isPositive (double_of v)"
  by (simp add: double_of_def)

lemma double_of_not_negative: "0 \<le> v \<Longrightarrow> \<not> isNegative (double_of v)"
  using overflow_bound_gt_one by (auto simp: double_of_def)

lemma times_not_positive:
  "\<not> isPositive a \<Longrightarrow> \<not> isNegative b \<Longrightarrow> \<not> isPositive (a * b)"
  by (cases a; cases b)
     (auto simp: double_of_not_positive mult_nonpos_nonneg not_less)

lemma divide_not_positive:
  "\<not> isPositive a \<Longrightarrow> \<not> isNegative b \<Longrightarrow> \<not> isPositive (a / b)"
  by (cases a; cases b)
     (auto simp: double_of_not_positive divide_nonpos_nonneg not_less)

lemma Math_pow_zero: "Math_pow a 0 = Fin 1"
  by (cases a) (simp_all add: double_of_one)


subsection \<open>The cost calculation: auxiliary facts\<close>

lemma error_unique: "(e :: error) = e'"
  by (cases e; cases e') simp

lemma yearlyPayments_Inr:
  "yearlyPayments r ic mc = Inr ys \<longleftrightarrow>
     expectedLife_r r \<le> 4294967295 \<and>
     ys = map (yearCost r ic mc) [0..<nat (expectedLife_r r)]"
  by (auto simp: yearlyPayments_def Array_from_length_def)

lemma yearlyPayments_Inl:
  "yearlyPayments r ic mc = Inl e \<longleftrightarrow> 4294967295 < expectedLife_r r"
  by (cases e) (auto simp: yearlyPayments_def Array_from_length_def)

lemma calculateCostOfOwnership_Inr:
  "calculateCostOfOwnership s = Inr (s', b) \<longleftrightarrow>
   (\<exists>ins ic mnt mc.
      interpolatePoints (insurancePoints_r (resolveDefaults s)) (expectedLife_r (resolveDefaults s)) = Inr (ins, ic) \<and>
      interpolatePoints (maintenancePoints_r (resolveDefaults s)) (expectedLife_r (resolveDefaults s)) = Inr (mnt, mc) \<and>
      expectedLife_r (resolveDefaults s) \<le> 4294967295 \<and>
      s' = settingsAfter s ins mnt \<and>
      b = \<lparr>yearlyBreakdown =
             map (yearCost (resolveDefaults s) ic mc) [0..<nat (expectedLife_r (resolveDefaults s))],
           total = foldl (+) (Fin 0)
             (map (yearCost (resolveDefaults s) ic mc) [0..<nat (expectedLife_r (resolveDefaults s))])\<rparr>)"
  by (auto simp: calculateCostOfOwnership_def Let_def yearlyPayments_Inr yearlyPayments_Inl
      split: sum.splits prod.splits)

lemma calculateCostOfOwnership_part_001_Inr:
  "calculateCostOfOwnership_part_001 s = Inr (s', b) \<longleftrightarrow>
   (\<exists>ins ic mnt mc.
      interpolatePoints (insurancePoints_r (resolveDefaults s)) (expectedLife_r (resolveDefaults s)) = Inr (ins, ic) \<and>
      interpolatePoints (maintenancePoints_r (resolveDefaults s)) (expectedLife_r (resolveDefaults s)) = Inr (mnt, mc) \<and>
      expectedLife_r (resolveDefaults s) \<le> 4294967295 \<and>
      s' = settingsAfter s ins mnt \<and>
      b = \<lparr>yearlyBreakdown =
             map (yearCost (resolveDefaults s) ic mc) [0..<nat (expectedLife_r (resolveDefaults s))],
           total = foldl (+) (Fin 0)
             (map (yearCost (resolveDefaults s) ic mc) [0..<nat (expectedLife_r (resolveDefaults s))]) +
                   Fin (downPayment_r (resolveDefaults s))\<rparr>)"
  by (auto simp: calculateCostOfOwnership_part_001_def Let_def yearlyPayments_Inr
        yearlyPayments_Inl split: sum.splits prod.splits)

text \<open>
  The call raises exactly when \<open>expectedLife\<close> is above \<open>2 ^ 32 - 1\<close>, or negative with a
  curve of fewer than two points.
\<close>

lemma calculateCostOfOwnership_Inl:
  "calculateCostOfOwnership s = Inl e \<longleftrightarrow>
     4294967295 < expectedLife_r (resolveDefaults s) \<or>
     (expectedLife_r (resolveDefaults s) < 0 \<and>
      (length (insurancePoints_r (resolveDefaults s)) < 2 \<or>
       length (maintenancePoints_r (resolveDefaults s)) < 2))"
proof -
  let ?r = "resolveDefaults s"
  have "(\<exists>s' b. calculateCostOfOwnership s = Inr (s', b)) \<longleftrightarrow>
     \<not> (4294967295 < expectedLife_r ?r \<or>
        (expectedLife_r ?r < 0 \<and>
         (length (insurancePoints_r ?r) < 2 \<or> length (maintenancePoints_r ?r) < 2)))"
  proof
    assume "\<exists>s' b. calculateCostOfOwnership s = Inr (s', b)"
    then obtain ins ic mnt mc where
      "interpolatePoints (insurancePoints_r ?r) (expectedLife_r ?r) = Inr (ins, ic)"
      "interpolatePoints (maintenancePoints_r ?r) (expectedLife_r ?r) = Inr (mnt, mc)"
      "expectedLife_r ?r \<le> 4294967295"
      unfolding calculateCostOfOwnership_Inr by blast
    then show "\<not> (4294967295 < expectedLife_r ?r \<or>
        (expectedLife_r ?r < 0 \<and>
         (length (insurancePoints_r ?r) < 2 \<or> length (maintenancePoints_r ?r) < 2)))"
      using interpolatePoints_Inl_iff [of "insurancePoints_r ?r" "expectedLife_r ?r" RangeError]
        interpolatePoints_Inl_iff [of "maintenancePoints_r ?r" "expectedLife_r ?r" RangeError]
      by auto
  next
    assume a: "\<not> (4294967295 < expectedLife_r ?r \<or>
        (expectedLife_r ?r < 0 \<and>
         (length (insurancePoints_r ?r) < 2 \<or> length (maintenancePoints_r ?r) < 2)))"
    then have "\<not> (\<exists>e. interpolatePoints (insurancePoints_r ?r) (expectedLife_r ?r) = Inl e)"
      by (auto simp: interpolatePoints_Inl_iff)
    then obtain ins ic where
      i: "interpolatePoints (insurancePoints_r ?r) (expectedLife_r ?r) = Inr (ins, ic)"
      by (cases "interpolatePoints (insurancePoints_r ?r) (expectedLife_r ?r)") auto
    from a have "\<not> (\<exists>e. interpolatePoints (maintenancePoints_r ?r) (expectedLife_r ?r) = Inl e)"
      by (auto simp: interpolatePoints_Inl_iff)
    then obtain mnt mc where
      m: "interpolatePoints (maintenancePoints_r ?r) (expectedLife_r ?r) = Inr (mnt, mc)"
      by (cases "interpolatePoints (maintenancePoints_r ?r) (expectedLife_r ?r)") auto
    from a have "expectedLife_r ?r \<le> 4294967295" by simp
    with i m show "\<exists>s' b. calculateCostOfOwnership s = Inr (s', b)"
      unfolding calculateCostOfOwnership_Inr by blast
  qed
  moreover have "calculateCostOfOwnership s = Inl e \<longleftrightarrow>
      \<not> (\<exists>s' b. calculateCostOfOwnership s = Inr (s', b))"
    by (cases "calculateCostOfOwnership s") (auto simp: error_unique [of _ e])
  ultimately show ?thesis by blast
qed

lemma yearCost_in_range:
  "i < length ic \<Longrightarrow> i < length mc \<Longrightarrow>
   yearCost r ic mc i =
     (if int i < loanYears_r r
      then Fin (ic ! i + yearlyPermitCost_r r + mc ! i) + yearlyLoanPayment r
      else Fin (ic ! i + yearlyPermitCost_r r + mc ! i))"
  by (simp add: yearCost_def readAt_def Let_def)

lemma powi_ne_one:
  fixes q :: real
  assumes "1 < q" "n \<noteq> 0"
  shows "q powi n \<noteq> 1"
proof (cases "0 < n")
  case True
  with assms(1) have "1 < q powi n" by (rule one_less_power_int)
  then show ?thesis by simp
next
  case False
  with assms(2) have "0 < - n" by simp
  with assms(1) have "1 < q powi (- n)" by (rule one_less_power_int)
  then have "inverse (q powi n) > 1" by (simp add: power_int_minus)
  then show ?thesis by auto
qed

text \<open>A rate of zero, or no loan year at all, makes the formula \<open>0 / 0\<close>.\<close>

lemma yearlyLoanPayment_rate_zero:
  "loanRate_r r = 0 \<Longrightarrow> yearlyLoanPayment r = NaN"
  by (simp add: yearlyLoanPayment_def totalLoanPayment_def calculateLoanPayments_def Let_def
        double_of_zero double_of_one Fin_minus)


text \<open>
  With a principal of zero the payment is zero whenever the monthly rate is finite and the
  power is a finite number other than \<open>1\<close>.
\<close>

lemma yearlyLoanPayment_zero_principal:
  assumes "principal_of r = 0"
    and "Fin (loanRate_r r) / Fin 12 = Fin m"
    and "Math_pow (one_plus (Fin m)) (loanYears_r r * 12) = Fin P"
    and "P \<noteq> 1"
  shows "yearlyLoanPayment r = Fin 0"
proof -
  have y: "loanYears_r r \<noteq> 0"
  proof
    assume "loanYears_r r = 0"
    with assms(3) have "Fin P = Fin 1" by (simp add: Math_pow_zero)
    with assms(4) show False by simp
  qed
  from assms(4) have d: "P - 1 \<noteq> 0" by simp
  have "yearlyLoanPayment r =
          Fin 0 * Fin m * Fin P / (Fin P - Fin 1) * Fin 12 * Fin (of_int (loanYears_r r)) /
            Fin (of_int (loanYears_r r))"
    unfolding yearlyLoanPayment_def totalLoanPayment_def calculateLoanPayments_def Let_def
      assms(1) assms(2) assms(3) ..
  also have "\<dots> = Fin 0"
    using y d by (simp add: double_of_zero Fin_minus)
  finally show ?thesis .
qed

text \<open>
  The monthly rate and the power are such numbers when the rate is a double, its twelfth
  is more than half an ulp of \<open>1\<close>, there is a loan year and the power stays below the
  overflow.
\<close>

lemma loan_power_regular:
  assumes "1 / 2 ^ 53 < rate / 12" and "rate < overflow_bound" and "y \<noteq> 0"
    and "(1 + rate / 12) powi (y * 12) < overflow_bound"
  shows "Fin rate / Fin 12 = Fin (rate / 12) \<and>
         (\<exists>P. Math_pow (one_plus (Fin (rate / 12))) (y * 12) = Fin P \<and> P \<noteq> 1)"
proof -
  let ?m = "rate / 12"
  let ?v = "(1 + ?m) powi (y * 12)"
  have u: "underflow_bound < 1 / 2 ^ 53" by (simp add: underflow_bound_def)
  have "(0::real) < 1 / 2 ^ 53" by simp
  with assms(1) have mpos: "0 < ?m" by linarith
  from assms(1) u mpos have 1: "underflow_bound < \<bar>?m\<bar>" by simp
  from assms(2) mpos have 2: "\<bar>?m\<bar> < overflow_bound" by simp
  from 1 2 have m: "Fin rate / Fin 12 = Fin ?m" by (simp add: double_of_in_range)
  from assms(1) have o: "one_plus (Fin ?m) = Fin (1 + ?m)" by simp
  from mpos have q: "1 < 1 + ?m" by simp
  with assms(3) have ne: "?v \<noteq> 1" by (intro powi_ne_one) simp_all
  from q have vpos: "0 < ?v" by simp
  have "\<exists>P. double_of ?v = Fin P \<and> P \<noteq> 1"
  proof (cases "?v \<le> underflow_bound")
    case True
    with vpos assms(4) have "double_of ?v = Fin 0" by (simp add: double_of_def)
    then show ?thesis by simp
  next
    case False
    with vpos assms(4) have "double_of ?v = Fin ?v" by (simp add: double_of_def)
    with ne show ?thesis by simp
  qed
  moreover from q have "Math_pow (Fin (1 + ?m)) (y * 12) = double_of ?v" by simp
  ultimately show ?thesis using m o by simp
qed

text \<open>
  A negative principal at a positive rate over a positive number of years never gives a
  positive payment.
\<close>

lemma Math_pow_at_least_one:
  assumes "\<not> isNegative a" and "0 < n"
  shows "\<not> isNegative (Math_pow (one_plus a) n) \<and>
         \<not> isNegative (Math_pow (one_plus a) n - Fin 1)"
proof (cases a)
  case (Fin m)
  with assms(1) have m: "0 \<le> m" by simp
  define x where "x = (if m \<le> 1 / 2 ^ 53 then 1 else 1 + m)"
  from m have o: "one_plus (Fin m) = Fin x" by (simp add: x_def)
  from m have x: "1 \<le> x" by (simp add: x_def)
  with assms(2) have v: "1 \<le> x powi n" by simp
  from x have p: "Math_pow (Fin x) n = double_of (x powi n)" by simp
  show ?thesis
  proof (cases "overflow_bound \<le> x powi n")
    case True
    with v have "double_of (x powi n) = PInf" by (simp add: double_of_def)
    with Fin o p show ?thesis by (simp add: minus_number_def)
  next
    case False
    with v underflow_bound_lt_one have "double_of (x powi n) = Fin (x powi n)"
      by (simp add: double_of_def)
    with Fin o p v show ?thesis by (simp add: Fin_minus)
  qed
next
  case PInf
  with assms(2) show ?thesis by (simp add: minus_number_def)
next
  case NInf
  with assms(1) show ?thesis by simp
next
  case NaN
  with assms(2) show ?thesis by (simp add: minus_number_def)
qed

lemma yearlyLoanPayment_not_positive:
  assumes "principal_of r < 0" and "0 < loanRate_r r" and "0 < loanYears_r r"
  shows "\<not> isPositive (yearlyLoanPayment r)"
proof -
  let ?m = "Fin (loanRate_r r) / Fin 12"
  let ?p = "Math_pow (one_plus ?m) (loanYears_r r * 12)"
  from assms(2) have m: "\<not> isNegative ?m" by (simp add: double_of_not_negative)
  from assms(3) have "0 < loanYears_r r * 12" by simp
  with m have p: "\<not> isNegative ?p" "\<not> isNegative (?p - Fin 1)"
    using Math_pow_at_least_one [of ?m "loanYears_r r * 12"] by blast+
  from assms(3) have y: "\<not> isNegative (Fin (of_int (loanYears_r r)))" by simp
  have t: "\<not> isNegative (Fin 12)" by simp
  from assms(1) have "\<not> isPositive (Fin (principal_of r))" by simp
  then have "\<not> isPositive (Fin (principal_of r) * ?m)"
    by (rule times_not_positive [OF _ m])
  then have "\<not> isPositive (Fin (principal_of r) * ?m * ?p)"
    by (rule times_not_positive [OF _ p(1)])
  then have "\<not> isPositive (Fin (principal_of r) * ?m * ?p / (?p - Fin 1))"
    by (rule divide_not_positive [OF _ p(2)])
  then have "\<not> isPositive (Fin (principal_of r) * ?m * ?p / (?p - Fin 1) * Fin 12)"
    by (rule times_not_positive [OF _ t])
  then have "\<not> isPositive (Fin (principal_of r) * ?m * ?p / (?p - Fin 1) * Fin 12 *
                Fin (of_int (loanYears_r r)))"
    by (rule times_not_positive [OF _ y])
  then have "\<not> isPositive (Fin (principal_of r) * ?m * ?p / (?p - Fin 1) * Fin 12 *
                Fin (of_int (loanYears_r r)) / Fin (of_int (loanYears_r r)))"
    by (rule divide_not_positive [OF _ y])
  then show ?thesis
    unfolding yearlyLoanPayment_def totalLoanPayment_def calculateLoanPayments_def Let_def .
qed

text \<open>
  When the call returns, the breakdown has \<open>expectedLife\<close> entries, each the cost of its
  year; it returns for every \<open>expectedLife\<close> from \<open>0\<close> to \<open>2 ^ 32 - 1\<close>.
\<close>

lemma calculateCostOfOwnership_returns:
  assumes "0 \<le> expectedLife_r (resolveDefaults s) \<or>
           (2 \<le> length (insurancePoints_r (resolveDefaults s)) \<and>
            2 \<le> length (maintenancePoints_r (resolveDefaults s)))"
    and "expectedLife_r (resolveDefaults s) \<le> 4294967295"
  shows "\<exists>s' b ins ic mnt mc.
      calculateCostOfOwnership s = Inr (s', b) \<and>
      interpolatePoints (insurancePoints_r (resolveDefaults s)) (expectedLife_r (resolveDefaults s)) = Inr (ins, ic) \<and>
      interpolatePoints (maintenancePoints_r (resolveDefaults s)) (expectedLife_r (resolveDefaults s)) = Inr (mnt, mc) \<and>
      length ic = nat (expectedLife_r (resolveDefaults s)) \<and>
      length mc = nat (expectedLife_r (resolveDefaults s)) \<and>
      yearlyBreakdown b =
        map (yearCost (resolveDefaults s) ic mc) [0..<nat (expectedLife_r (resolveDefaults s))]"
proof -
  let ?r = "resolveDefaults s"
  from assms have "\<not> (\<exists>e. calculateCostOfOwnership s = Inl e)"
    by (auto simp: calculateCostOfOwnership_Inl)
  then obtain s' b where c: "calculateCostOfOwnership s = Inr (s', b)"
    by (cases "calculateCostOfOwnership s") auto
  then obtain ins ic mnt mc where
    i: "interpolatePoints (insurancePoints_r ?r) (expectedLife_r ?r) = Inr (ins, ic)" and
    m: "interpolatePoints (maintenancePoints_r ?r) (expectedLife_r ?r) = Inr (mnt, mc)" and
    b: "yearlyBreakdown b = map (yearCost ?r ic mc) [0..<nat (expectedLife_r ?r)]"
    unfolding calculateCostOfOwnership_Inr by auto
  from i have li: "length ic = nat (expectedLife_r ?r)" by (rule interpolatePoints_length)
  from m have lm: "length mc = nat (expectedLife_r ?r)" by (rule interpolatePoints_length)
  from c i m li lm b show ?thesis by blast
qed

lemma calculateCostOfOwnership_year:
  assumes "i < nat (expectedLife_r (resolveDefaults s))"
    and "expectedLife_r (resolveDefaults s) \<le> 4294967295"
  shows "\<exists>s' b ins ic mnt mc.
      calculateCostOfOwnership s = Inr (s', b) \<and>
      interpolatePoints (insurancePoints_r (resolveDefaults s)) (expectedLife_r (resolveDefaults s)) = Inr (ins, ic) \<and>
      interpolatePoints (maintenancePoints_r (resolveDefaults s)) (expectedLife_r (resolveDefaults s)) = Inr (mnt, mc) \<and>
      length (yearlyBreakdown b) = nat (expectedLife_r (resolveDefaults s)) \<and>
      yearlyBreakdown b ! i =
        (if int i < loanYears_r (resolveDefaults s)
         then Fin (ic ! i + yearlyPermitCost_r (resolveDefaults s) + mc ! i) +
              yearlyLoanPayment (resolveDefaults s)
         else Fin (ic ! i + yearlyPermitCost_r (resolveDefaults s) + mc ! i))"
proof -
  let ?r = "resolveDefaults s"
  from assms(1) have "0 \<le> expectedLife_r ?r" by linarith
  with assms(2) obtain s' b ins ic mnt mc where
    c: "calculateCostOfOwnership s = Inr (s', b)" and
    i: "interpolatePoints (insurancePoints_r ?r) (expectedLife_r ?r) = Inr (ins, ic)" and
    m: "interpolatePoints (maintenancePoints_r ?r) (expectedLife_r ?r) = Inr (mnt, mc)" and
    li: "length ic = nat (expectedLife_r ?r)" and
    lm: "length mc = nat (expectedLife_r ?r)" and
    b: "yearlyBreakdown b = map (yearCost ?r ic mc) [0..<nat (expectedLife_r ?r)]"
    using calculateCostOfOwnership_returns [of s] by blast
  from b have l: "length (yearlyBreakdown b) = nat (expectedLife_r ?r)" by simp
  from b assms(1) have "yearlyBreakdown b ! i = yearCost ?r ic mc i" by simp
  with assms(1) li lm have n: "yearlyBreakdown b ! i =
        (if int i < loanYears_r ?r
         then Fin (ic ! i + yearlyPermitCost_r ?r + mc ! i) + yearlyLoanPayment ?r
         else Fin (ic ! i + yearlyPermitCost_r ?r + mc ! i))"
    by (simp add: yearCost_in_range)
  from c i m l n show ?thesis by blast
qed

lemma default_loan_regular:
  "(1 :: real) / 2 ^ 53 < (3 / 100) / 12" "(3 / 100 :: real) < overflow_bound"
  "(1 + (3 / 100) / 12 :: real) powi (4 * 12) < overflow_bound"
proof -
  show "(1 :: real) / 2 ^ 53 < (3 / 100) / 12" by simp
  show "(3 / 100 :: real) < overflow_bound" by (simp add: overflow_bound_def)
  have "(401 / 400 :: real) ^ 48 \<le> 2 ^ 48" by (rule power_mono) simp_all
  also have "(2 :: real) ^ 48 < overflow_bound" by (simp add: overflow_bound_def)
  finally show "(1 + (3 / 100) / 12 :: real) powi (4 * 12) < overflow_bound" by simp
qed

lemma yearlyLoanPayment_zero_regular:
  assumes "principal_of r = 0"
    and "1 / 2 ^ 53 < loanRate_r r / 12" and "loanRate_r r < overflow_bound"
    and "loanYears_r r \<noteq> 0"
    and "(1 + loanRate_r r / 12) powi (loanYears_r r * 12) < overflow_bound"
  shows "yearlyLoanPayment r = Fin 0"
proof -
  from loan_power_regular [OF assms(2-5)] obtain P where
    "Fin (loanRate_r r) / Fin 12 = Fin (loanRate_r r / 12)"
    "Math_pow (one_plus (Fin (loanRate_r r / 12))) (loanYears_r r * 12) = Fin P" "P \<noteq> 1"
    by blast
  with assms(1) show ?thesis by (rule yearlyLoanPayment_zero_principal)
qed

lemma default_curves_two_years:
  "interpolatePoints [(0, 14000), (1, 6500)] 2 = Inr ([(0, 14000), (1, 6500)], [14000, 6500])"
  "interpolatePoints [(0, 1000), (5, 2000), (10, 3500), (15, 5000)] 2 =
     Inr ([(0, 1000), (5, 2000), (10, 3500), (15, 5000)], [1000, 1200])"
  by (simp_all add: interpolatePoints_def yearValue_def surrounding_def segmentValue_def
        lerp_def upt_rec)

lemma default_curves_five_years:
  "interpolatePoints [(0, 14000), (4, 6500)] 5 =
     Inr ([(0, 14000), (4, 6500)], [14000, 12125, 10250, 8375, 6500])"
  "interpolatePoints [(0, 1000), (5, 2000), (10, 3500), (15, 5000)] 5 =
     Inr ([(0, 1000), (5, 2000), (10, 3500), (15, 5000)], [1000, 1200, 1400, 1600, 1800])"
  by (simp_all add: interpolatePoints_def yearValue_def surrounding_def segmentValue_def
        lerp_def upt_rec)

lemma settingsAfter_unset:
  "insurancePoints s = None \<Longrightarrow> maintenancePoints s = None \<Longrightarrow> settingsAfter s ins mnt = s"
  by (simp add: settingsAfter_def)

text \<open>
  The total of \<^verbatim>\<open>car-cost.ts\<close> is the sum of the breakdown; the total of the second
  variant is that sum plus the down payment.
\<close>

lemma total_car_cost_ts:
  "calculateCostOfOwnership s = Inr (s', b) \<Longrightarrow> total b = foldl (+) (Fin 0) (yearlyBreakdown b)"
  by (auto simp: calculateCostOfOwnership_Inr)

lemma total_part_001:
  "calculateCostOfOwnership_part_001 s = Inr (s', b) \<Longrightarrow>
   total b = foldl (+) (Fin 0) (yearlyBreakdown b) + Fin (downPayment_r (resolveDefaults s))"
  by (auto simp: calculateCostOfOwnership_part_001_Inr)

text \<open>The two variants return the same yearly breakdown and leave the same settings.\<close>

lemma part_001_same_breakdown:
  "map_sum id (\<lambda>(s', b). (s', yearlyBreakdown b)) (calculateCostOfOwnership_part_001 s) =
   map_sum id (\<lambda>(s', b). (s', yearlyBreakdown b)) (calculateCostOfOwnership s)"
  by (simp add: calculateCostOfOwnership_def calculateCostOfOwnership_part_001_def Let_def
        split: sum.splits prod.splits)

lemma resolveDefaults_insurance_irrelevant:
  "insurancePoints s = None \<Longrightarrow>
   resolveDefaults (s\<lparr>insurancePoints :=
      Some [(0, 14000), (of_int (case expectedLife s of None \<Rightarrow> 20 | Some e \<Rightarrow> e) - 1, 6500)]\<rparr>) =
   resolveDefaults s"
  by (simp add: resolveDefaults_def Let_def)

subsection \<open>The total\<close>

text \<open>
  Claim C1 says that the total is the sum of the yearly breakdown plus the down payment,
  added once. The variant \<^verbatim>\<open>src/unnamed/part_001\<close> computes exactly that (see
  \<open>total_part_001\<close>); \<^verbatim>\<open>car-cost.ts\<close> returns the bare sum (see \<open>total_car_cost_ts\<close>).
  For a car of cost \<open>5000\<close> paid with a down payment of \<open>5000\<close> and kept two years, the
  yearly costs are \<open>17643\<close> and \<open>10343\<close>; \<^verbatim>\<open>car-cost.ts\<close> returns the total \<open>27986\<close>, the
  other variant \<open>32986\<close>.
\<close>

theorem total_omits_downPayment:
  "calculateCostOfOwnership
     (emptySettings\<lparr>cost := Some 5000, downPayment := Some 5000, expectedLife := Some 2\<rparr>) =
     Inr (emptySettings\<lparr>cost := Some 5000, downPayment := Some 5000, expectedLife := Some 2\<rparr>,
          \<lparr>yearlyBreakdown = [Fin 17643, Fin 10343], total = Fin 27986\<rparr>) \<and>
   foldl (+) (Fin 0) [Fin 17643, Fin 10343] + Fin 5000 = Fin 32986 \<and>
   calculateCostOfOwnership_part_001
     (emptySettings\<lparr>cost := Some 5000, downPayment := Some 5000, expectedLife := Some 2\<rparr>) =
     Inr (emptySettings\<lparr>cost := Some 5000, downPayment := Some 5000, expectedLife := Some 2\<rparr>,
          \<lparr>yearlyBreakdown = [Fin 17643, Fin 10343], total = Fin 32986\<rparr>)"
proof -
  let ?s = "emptySettings\<lparr>cost := Some 5000, downPayment := Some 5000, expectedLife := Some 2\<rparr>"
  let ?r = "\<lparr>cost_r = 5000, downPayment_r = 5000, loanRate_r = 3 / 100, loanYears_r = 4,
       expectedLife_r = 2, insurancePoints_r = [(0, 14000), (1, 6500)],
       yearlyPermitCost_r = 2643,
       maintenancePoints_r = [(0, 1000), (5, 2000), (10, 3500), (15, 5000)]\<rparr>"
  have r: "resolveDefaults ?s = ?r"
    by (simp add: resolveDefaults_def emptySettings_def)
  have p: "yearlyLoanPayment ?r = Fin 0"
    using default_loan_regular
    by (intro yearlyLoanPayment_zero_regular) (simp_all add: principal_of_def)
  have sa: "settingsAfter ?s ins mnt = ?s" for ins mnt
    by (rule settingsAfter_unset) (simp_all add: emptySettings_def)
  have y: "yearlyPayments ?r [14000, 6500] [1000, 1200] = Inr [Fin 17643, Fin 10343]"
    by (simp add: p yearlyPayments_def Array_from_length_def yearCost_def readAt_def upt_rec)
  have "calculateCostOfOwnership ?s =
     Inr (?s, \<lparr>yearlyBreakdown = [Fin 17643, Fin 10343], total = Fin 27986\<rparr>)"
    by (simp add: calculateCostOfOwnership_def Let_def r default_curves_two_years sa y)
  moreover have "calculateCostOfOwnership_part_001 ?s =
     Inr (?s, \<lparr>yearlyBreakdown = [Fin 17643, Fin 10343], total = Fin 32986\<rparr>)"
    by (simp add: calculateCostOfOwnership_part_001_def Let_def r default_curves_two_years sa y)
  moreover have "foldl (+) (Fin 0) [Fin 17643, Fin 10343] + Fin 5000 = Fin 32986" by simp
  ultimately show ?thesis by blast
qed

subsection \<open>A loan rate of zero\<close>

text \<open>
  Claim C2 says that a loan rate of \<open>0\<close> takes a guarded straight-line branch and yields
  the yearly payment \<open>(cost - downPayment) / loanYears\<close>, never \<^verbatim>\<open>NaN\<close>. Neither variant
  has such a branch: with the rate \<open>0\<close> the formula is \<open>0 / 0\<close>. For a cost of \<open>20000\<close>, the
  rate \<open>0\<close>, four loan years and five years of life, the claimed payment is \<open>5000\<close>; the
  computed one is \<^verbatim>\<open>NaN\<close>, and so are the four loan years of the breakdown and the total.
\<close>

theorem zero_rate_gives_NaN:
  "yearlyLoanPayment (resolveDefaults
     (emptySettings\<lparr>cost := Some 20000, loanRate := Some 0, expectedLife := Some 5\<rparr>)) = NaN \<and>
   principal_of (resolveDefaults
     (emptySettings\<lparr>cost := Some 20000, loanRate := Some 0, expectedLife := Some 5\<rparr>)) /
   of_int (loanYears_r (resolveDefaults
     (emptySettings\<lparr>cost := Some 20000, loanRate := Some 0, expectedLife := Some 5\<rparr>))) = 5000 \<and>
   \<not> isNumeric (yearlyLoanPayment (resolveDefaults
     (emptySettings\<lparr>cost := Some 20000, loanRate := Some 0, expectedLife := Some 5\<rparr>))) \<and>
   calculateCostOfOwnership
     (emptySettings\<lparr>cost := Some 20000, loanRate := Some 0, expectedLife := Some 5\<rparr>) =
     Inr (emptySettings\<lparr>cost := Some 20000, loanRate := Some 0, expectedLife := Some 5\<rparr>,
          \<lparr>yearlyBreakdown = [NaN, NaN, NaN, NaN, Fin 10943], total = NaN\<rparr>) \<and>
   calculateCostOfOwnership_part_001
     (emptySettings\<lparr>cost := Some 20000, loanRate := Some 0, expectedLife := Some 5\<rparr>) =
     Inr (emptySettings\<lparr>cost := Some 20000, loanRate := Some 0, expectedLife := Some 5\<rparr>,
          \<lparr>yearlyBreakdown = [NaN, NaN, NaN, NaN, Fin 10943], total = NaN\<rparr>)"
proof -
  let ?s = "emptySettings\<lparr>cost := Some 20000, loanRate := Some 0, expectedLife := Some 5\<rparr>"
  let ?r = "\<lparr>cost_r = 20000, downPayment_r = 0, loanRate_r = 0, loanYears_r = 4,
       expectedLife_r = 5, insurancePoints_r = [(0, 14000), (4, 6500)],
       yearlyPermitCost_r = 2643,
       maintenancePoints_r = [(0, 1000), (5, 2000), (10, 3500), (15, 5000)]\<rparr>"
  have r: "resolveDefaults ?s = ?r"
    by (simp add: resolveDefaults_def emptySettings_def)
  have p: "yearlyLoanPayment ?r = NaN"
    by (rule yearlyLoanPayment_rate_zero) simp
  have sa: "settingsAfter ?s ins mnt = ?s" for ins mnt
    by (rule settingsAfter_unset) (simp_all add: emptySettings_def)
  have y: "yearlyPayments ?r [14000, 12125, 10250, 8375, 6500] [1000, 1200, 1400, 1600, 1800] =
             Inr [NaN, NaN, NaN, NaN, Fin 10943]"
    by (simp add: p yearlyPayments_def Array_from_length_def yearCost_def readAt_def upt_rec)
  have "calculateCostOfOwnership ?s =
     Inr (?s, \<lparr>yearlyBreakdown = [NaN, NaN, NaN, NaN, Fin 10943], total = NaN\<rparr>)"
    by (simp add: calculateCostOfOwnership_def Let_def r default_curves_five_years sa y)
  moreover have "calculateCostOfOwnership_part_001 ?s =
     Inr (?s, \<lparr>yearlyBreakdown = [NaN, NaN, NaN, NaN, Fin 10943], total = NaN\<rparr>)"
    by (simp add: calculateCostOfOwnership_part_001_def Let_def r default_curves_five_years sa y)
  moreover have "yearlyLoanPayment (resolveDefaults ?s) = NaN" by (simp add: r p)
  moreover have "principal_of (resolveDefaults ?s) / of_int (loanYears_r (resolveDefaults ?s)) = 5000"
    by (simp add: r principal_of_def)
  ultimately show ?thesis by simp
qed

subsection \<open>The years that carry the loan\<close>

text \<open>
  Claim C5. For every settings and every year index \<open>i\<close> below \<open>expectedLife\<close> (an
  \<open>expectedLife\<close> of \<open>2 ^ 32\<close> or more gives no year at all: the call raises) the call
  returns, the breakdown has \<open>expectedLife\<close> entries, and entry \<open>i\<close> is insurance + permit +
  maintenance of that year plus the yearly loan payment if and only if \<open>i < loanYears\<close>. In
  particular, with \<open>loanYears > expectedLife\<close> every one of the \<open>expectedLife\<close> entries
  (and nothing beyond them) carries the loan payment, and an entry at an index from
  \<open>loanYears\<close> on is insurance + permit + maintenance only.
\<close>

theorem loan_charged_iff_before_loanYears:
  assumes "i < nat (expectedLife_r (resolveDefaults s))"
    and "expectedLife_r (resolveDefaults s) \<le> 4294967295"
  shows "\<exists>s' b ins ic mnt mc.
      calculateCostOfOwnership s = Inr (s', b) \<and>
      interpolatePoints (insurancePoints_r (resolveDefaults s)) (expectedLife_r (resolveDefaults s)) = Inr (ins, ic) \<and>
      interpolatePoints (maintenancePoints_r (resolveDefaults s)) (expectedLife_r (resolveDefaults s)) = Inr (mnt, mc) \<and>
      length (yearlyBreakdown b) = nat (expectedLife_r (resolveDefaults s)) \<and>
      yearlyBreakdown b ! i =
        (if int i < loanYears_r (resolveDefaults s)
         then Fin (ic ! i + yearlyPermitCost_r (resolveDefaults s) + mc ! i) +
              yearlyLoanPayment (resolveDefaults s)
         else Fin (ic ! i + yearlyPermitCost_r (resolveDefaults s) + mc ! i)) \<and>
      (expectedLife_r (resolveDefaults s) < loanYears_r (resolveDefaults s) \<longrightarrow>
         yearlyBreakdown b ! i =
           Fin (ic ! i + yearlyPermitCost_r (resolveDefaults s) + mc ! i) +
           yearlyLoanPayment (resolveDefaults s)) \<and>
      (loanYears_r (resolveDefaults s) \<le> int i \<longrightarrow>
         yearlyBreakdown b ! i = Fin (ic ! i + yearlyPermitCost_r (resolveDefaults s) + mc ! i))"
proof -
  let ?r = "resolveDefaults s"
  from assms obtain s' b ins ic mnt mc where
    c: "calculateCostOfOwnership s = Inr (s', b)" and
    i: "interpolatePoints (insurancePoints_r ?r) (expectedLife_r ?r) = Inr (ins, ic)" and
    m: "interpolatePoints (maintenancePoints_r ?r) (expectedLife_r ?r) = Inr (mnt, mc)" and
    l: "length (yearlyBreakdown b) = nat (expectedLife_r ?r)" and
    n: "yearlyBreakdown b ! i =
        (if int i < loanYears_r ?r
         then Fin (ic ! i + yearlyPermitCost_r ?r + mc ! i) + yearlyLoanPayment ?r
         else Fin (ic ! i + yearlyPermitCost_r ?r + mc ! i))"
    using calculateCostOfOwnership_year [of i s] by blast
  from assms(1) have "int i < expectedLife_r ?r" by linarith
  with n have "expectedLife_r ?r < loanYears_r ?r \<longrightarrow>
         yearlyBreakdown b ! i =
           Fin (ic ! i + yearlyPermitCost_r ?r + mc ! i) + yearlyLoanPayment ?r"
    by simp
  moreover from n have "loanYears_r ?r \<le> int i \<longrightarrow>
         yearlyBreakdown b ! i = Fin (ic ! i + yearlyPermitCost_r ?r + mc ! i)"
    by simp
  ultimately show ?thesis using c i m n l by blast
qed

theorem loan_charged_iff_before_loanYears_witness:
  "0 < nat (expectedLife_r (resolveDefaults
     (emptySettings\<lparr>cost := Some 4095, loanRate := Some 12, loanYears := Some 1,
                    expectedLife := Some 2\<rparr>))) \<and>
   expectedLife_r (resolveDefaults
     (emptySettings\<lparr>cost := Some 4095, loanRate := Some 12, loanYears := Some 1,
                    expectedLife := Some 2\<rparr>)) \<le> 4294967295 \<and>
   calculateCostOfOwnership
     (emptySettings\<lparr>cost := Some 4095, loanRate := Some 12, loanYears := Some 1,
                    expectedLife := Some 2\<rparr>) =
     Inr (emptySettings\<lparr>cost := Some 4095, loanRate := Some 12, loanYears := Some 1,
                         expectedLife := Some 2\<rparr>,
          \<lparr>yearlyBreakdown = [Fin 66795, Fin 10343], total = Fin 77138\<rparr>) \<and>
   yearlyLoanPayment (resolveDefaults
     (emptySettings\<lparr>cost := Some 4095, loanRate := Some 12, loanYears := Some 1,
                    expectedLife := Some 2\<rparr>)) = Fin 49152"
proof -
  let ?s = "emptySettings\<lparr>cost := Some 4095, loanRate := Some 12, loanYears := Some 1,
                    expectedLife := Some 2\<rparr>"
  have r: "resolveDefaults ?s =
      \<lparr>cost_r = 4095, downPayment_r = 0, loanRate_r = 12, loanYears_r = 1, expectedLife_r = 2,
       insurancePoints_r = [(0, 14000), (1, 6500)], yearlyPermitCost_r = 2643,
       maintenancePoints_r = [(0, 1000), (5, 2000), (10, 3500), (15, 5000)]\<rparr>"
    by (simp add: resolveDefaults_def emptySettings_def)
  have p: "yearlyLoanPayment
      \<lparr>cost_r = 4095, downPayment_r = 0, loanRate_r = 12, loanYears_r = 1, expectedLife_r = 2,
       insurancePoints_r = [(0, 14000), (1, 6500)], yearlyPermitCost_r = 2643,
       maintenancePoints_r = [(0, 1000), (5, 2000), (10, 3500), (15, 5000)]\<rparr> = Fin 49152"
    by (simp add: yearlyLoanPayment_def totalLoanPayment_def calculateLoanPayments_def
          principal_of_def double_of_def overflow_bound_def underflow_bound_def Fin_minus)
  have i: "interpolatePoints [(0, 14000), (1, 6500)] 2 = Inr ([(0, 14000), (1, 6500)], [14000, 6500])"
    by (simp add: interpolatePoints_def yearValue_def surrounding_def segmentValue_def
          lerp_def upt_rec)
  have m: "interpolatePoints [(0, 1000), (5, 2000), (10, 3500), (15, 5000)] 2 =
             Inr ([(0, 1000), (5, 2000), (10, 3500), (15, 5000)], [1000, 1200])"
    by (simp add: interpolatePoints_def yearValue_def surrounding_def segmentValue_def
          lerp_def upt_rec)
  have sa: "settingsAfter ?s ins mnt = ?s" for ins mnt
    by (simp add: settingsAfter_def emptySettings_def)
  have c: "calculateCostOfOwnership ?s =
     Inr (?s, \<lparr>yearlyBreakdown = [Fin 66795, Fin 10343], total = Fin 77138\<rparr>)"
    by (simp add: calculateCostOfOwnership_def Let_def r i m p sa yearlyPayments_def
          Array_from_length_def yearCost_def readAt_def upt_rec)
  have h: "0 < nat (expectedLife_r (resolveDefaults ?s))" by (simp add: r)
  have h': "expectedLife_r (resolveDefaults ?s) \<le> 4294967295" by (simp add: r)
  have p': "yearlyLoanPayment (resolveDefaults ?s) = Fin 49152" by (simp add: r p)
  from loan_charged_iff_before_loanYears [OF h h'] c h h' p' show ?thesis by simp
qed

subsection \<open>The default insurance curve\<close>

text \<open>
  Claim C6. When the settings leave \<^verbatim>\<open>insurancePoints\<close> unset, the curve in use is
  \<open>[(0, 14000), (expectedLife - 1, 6500)]\<close> for the resolved \<open>expectedLife\<close> (the value of
  the settings if set, \<open>20\<close> otherwise); with both fields unset it is
  \<open>[(0, 14000), (19, 6500)]\<close>. The result of the calculation is the one obtained with
  that curve set explicitly.
\<close>

theorem default_insurance_curve:
  assumes "insurancePoints s = None"
  shows "expectedLife_r (resolveDefaults s) = (case expectedLife s of None \<Rightarrow> 20 | Some e \<Rightarrow> e) \<and>
         insurancePoints_r (resolveDefaults s) =
           [(0, 14000), (of_int (expectedLife_r (resolveDefaults s)) - 1, 6500)] \<and>
         (expectedLife s = None \<longrightarrow>
            insurancePoints_r (resolveDefaults s) = [(0, 14000), (19, 6500)]) \<and>
         map_sum id snd (calculateCostOfOwnership s) =
           map_sum id snd (calculateCostOfOwnership (s\<lparr>insurancePoints :=
             Some [(0, 14000),
                   (of_int (case expectedLife s of None \<Rightarrow> 20 | Some e \<Rightarrow> e) - 1, 6500)]\<rparr>))"
proof -
  have 1: "expectedLife_r (resolveDefaults s) = (case expectedLife s of None \<Rightarrow> 20 | Some e \<Rightarrow> e)"
    by (simp add: resolveDefaults_def Let_def)
  have 2: "insurancePoints_r (resolveDefaults s) =
           [(0, 14000), (of_int (expectedLife_r (resolveDefaults s)) - 1, 6500)]"
    using assms by (simp add: resolveDefaults_def Let_def)
  have 3: "expectedLife s = None \<longrightarrow>
            insurancePoints_r (resolveDefaults s) = [(0, 14000), (19, 6500)]"
    using assms by (simp add: resolveDefaults_def Let_def)
  have 4: "map_sum id snd (calculateCostOfOwnership s) =
           map_sum id snd (calculateCostOfOwnership (s\<lparr>insurancePoints :=
             Some [(0, 14000),
                   (of_int (case expectedLife s of None \<Rightarrow> 20 | Some e \<Rightarrow> e) - 1, 6500)]\<rparr>))"
    unfolding calculateCostOfOwnership_def resolveDefaults_insurance_irrelevant [OF assms] Let_def
    by (simp split: sum.splits prod.splits)
  from 1 2 3 4 show ?thesis by blast
qed

theorem default_insurance_curve_witness:
  "insurancePoints (emptySettings\<lparr>expectedLife := Some 15\<rparr>) = None \<and>
   expectedLife_r (resolveDefaults (emptySettings\<lparr>expectedLife := Some 15\<rparr>)) = 15 \<and>
   insurancePoints_r (resolveDefaults (emptySettings\<lparr>expectedLife := Some 15\<rparr>)) =
     [(0, 14000), (14, 6500)]"
proof -
  have h: "insurancePoints (emptySettings\<lparr>expectedLife := Some 15\<rparr>) = None"
    by (simp add: emptySettings_def)
  have e: "expectedLife (emptySettings\<lparr>expectedLife := Some 15\<rparr>) = Some 15"
    by simp
  from default_insurance_curve [OF h] h e show ?thesis by simp
qed

subsection \<open>No validation of the input\<close>

text \<open>
  Claim C8 says that the calculation returns a breakdown for every settings and that a
  negative principal gives a negative yearly loan payment. A negative \<open>expectedLife\<close>, or
  one of \<open>2 ^ 32\<close>, together with a curve of fewer than two points makes
  \<^verbatim>\<open>Array(length)\<close> throw a \<^verbatim>\<open>RangeError\<close>. With the principal \<open>-4095\<close>, the rate \<open>12\<close> and
  \<open>100\<close> loan years the power \<open>2 ^ 1200\<close> overflows and the payment is \<^verbatim>\<open>NaN\<close>, which is
  not negative.
\<close>

theorem negative_lifetime_raises:
  "calculateCostOfOwnership
     (emptySettings\<lparr>expectedLife := Some (- 1), insurancePoints := Some []\<rparr>) = Inl RangeError \<and>
   calculateCostOfOwnership_part_001
     (emptySettings\<lparr>expectedLife := Some (- 1), insurancePoints := Some []\<rparr>) = Inl RangeError \<and>
   calculateCostOfOwnership
     (emptySettings\<lparr>expectedLife := Some 4294967296, insurancePoints := Some []\<rparr>) =
     Inl RangeError \<and>
   principal_of (resolveDefaults
     (emptySettings\<lparr>cost := Some 905, downPayment := Some 5000, loanRate := Some 12,
                    loanYears := Some 100\<rparr>)) = - 4095 \<and>
   yearlyLoanPayment (resolveDefaults
     (emptySettings\<lparr>cost := Some 905, downPayment := Some 5000, loanRate := Some 12,
                    loanYears := Some 100\<rparr>)) = NaN \<and>
   \<not> isNegative (yearlyLoanPayment (resolveDefaults
     (emptySettings\<lparr>cost := Some 905, downPayment := Some 5000, loanRate := Some 12,
                    loanYears := Some 100\<rparr>)))"
proof -
  have 1: "calculateCostOfOwnership
     (emptySettings\<lparr>expectedLife := Some (- 1), insurancePoints := Some []\<rparr>) = Inl RangeError"
    "calculateCostOfOwnership_part_001
     (emptySettings\<lparr>expectedLife := Some (- 1), insurancePoints := Some []\<rparr>) = Inl RangeError"
    "calculateCostOfOwnership
     (emptySettings\<lparr>expectedLife := Some 4294967296, insurancePoints := Some []\<rparr>) =
     Inl RangeError"
    by (simp_all add: calculateCostOfOwnership_def calculateCostOfOwnership_part_001_def
        resolveDefaults_def emptySettings_def interpolatePoints_def Array_fill_def)
  let ?s = "emptySettings\<lparr>cost := Some 905, downPayment := Some 5000, loanRate := Some 12,
                    loanYears := Some 100\<rparr>"
  have r: "resolveDefaults ?s =
      \<lparr>cost_r = 905, downPayment_r = 5000, loanRate_r = 12, loanYears_r = 100,
       expectedLife_r = 20, insurancePoints_r = [(0, 14000), (19, 6500)],
       yearlyPermitCost_r = 2643,
       maintenancePoints_r = [(0, 1000), (5, 2000), (10, 3500), (15, 5000)]\<rparr>"
    by (simp add: resolveDefaults_def emptySettings_def)
  have q: "principal_of (resolveDefaults ?s) = - 4095" by (simp add: r principal_of_def)
  have p: "yearlyLoanPayment (resolveDefaults ?s) = NaN"
    unfolding r
    by (simp add: yearlyLoanPayment_def totalLoanPayment_def calculateLoanPayments_def
          principal_of_def double_of_def overflow_bound_def underflow_bound_def
          minus_number_def)
  from 1 q p show ?thesis by simp
qed

text \<open>
  Claim C8, amended. For every settings whose resolved \<open>expectedLife\<close> is below \<open>2 ^ 32\<close>
  and either not negative or paired with two curves of at least two points each (the
  default curves have them), including settings where the down payment exceeds the cost,
  the calculation returns a breakdown of \<open>expectedLife\<close> entries. The principal is
  \<open>cost - downPayment\<close>, also when that is zero or negative, and the yearly loan payment
  computed from it is part of every year \<open>i < loanYears\<close>, whatever its value. With a
  negative principal, a positive loan rate and a positive number of loan years the
  payment is never positive: it is negative whenever it is a number other than zero.
\<close>

theorem returns_without_validation:
  assumes "expectedLife_r (resolveDefaults s) \<le> 4294967295"
    and "0 \<le> expectedLife_r (resolveDefaults s) \<or>
           (2 \<le> length (insurancePoints_r (resolveDefaults s)) \<and>
            2 \<le> length (maintenancePoints_r (resolveDefaults s)))"
  shows "\<exists>s' b ins ic mnt mc.
      calculateCostOfOwnership s = Inr (s', b) \<and>
      interpolatePoints (insurancePoints_r (resolveDefaults s)) (expectedLife_r (resolveDefaults s)) = Inr (ins, ic) \<and>
      interpolatePoints (maintenancePoints_r (resolveDefaults s)) (expectedLife_r (resolveDefaults s)) = Inr (mnt, mc) \<and>
      length (yearlyBreakdown b) = nat (expectedLife_r (resolveDefaults s)) \<and>
      principal_of (resolveDefaults s) = cost_r (resolveDefaults s) - downPayment_r (resolveDefaults s) \<and>
      (\<forall>i. i < nat (expectedLife_r (resolveDefaults s)) \<and>
           int i < loanYears_r (resolveDefaults s) \<longrightarrow>
           yearlyBreakdown b ! i =
             Fin (ic ! i + yearlyPermitCost_r (resolveDefaults s) + mc ! i) +
             yearlyLoanPayment (resolveDefaults s)) \<and>
      (principal_of (resolveDefaults s) < 0 \<and> 0 < loanRate_r (resolveDefaults s) \<and>
       0 < loanYears_r (resolveDefaults s) \<longrightarrow>
         \<not> isPositive (yearlyLoanPayment (resolveDefaults s)) \<and>
         (\<forall>v. yearlyLoanPayment (resolveDefaults s) = Fin v \<and> v \<noteq> 0 \<longrightarrow> v < 0))"
proof -
  let ?r = "resolveDefaults s"
  from assms obtain s' b ins ic mnt mc where
    c: "calculateCostOfOwnership s = Inr (s', b)" and
    i: "interpolatePoints (insurancePoints_r ?r) (expectedLife_r ?r) = Inr (ins, ic)" and
    m: "interpolatePoints (maintenancePoints_r ?r) (expectedLife_r ?r) = Inr (mnt, mc)" and
    li: "length ic = nat (expectedLife_r ?r)" and
    lm: "length mc = nat (expectedLife_r ?r)" and
    b: "yearlyBreakdown b = map (yearCost ?r ic mc) [0..<nat (expectedLife_r ?r)]"
    using calculateCostOfOwnership_returns [of s] by blast
  from b have l: "length (yearlyBreakdown b) = nat (expectedLife_r ?r)" by simp
  have pr: "principal_of ?r = cost_r ?r - downPayment_r ?r" by (simp add: principal_of_def)
  have yrs: "\<forall>i. i < nat (expectedLife_r ?r) \<and> int i < loanYears_r ?r \<longrightarrow>
           yearlyBreakdown b ! i =
             Fin (ic ! i + yearlyPermitCost_r ?r + mc ! i) + yearlyLoanPayment ?r"
    using b li lm by (simp add: yearCost_in_range)
  have neg: "principal_of ?r < 0 \<and> 0 < loanRate_r ?r \<and> 0 < loanYears_r ?r \<longrightarrow>
         \<not> isPositive (yearlyLoanPayment ?r) \<and>
         (\<forall>v. yearlyLoanPayment ?r = Fin v \<and> v \<noteq> 0 \<longrightarrow> v < 0)"
  proof
    assume "principal_of ?r < 0 \<and> 0 < loanRate_r ?r \<and> 0 < loanYears_r ?r"
    then have np: "\<not> isPositive (yearlyLoanPayment ?r)"
      by (intro yearlyLoanPayment_not_positive) simp_all
    then have "\<forall>v. yearlyLoanPayment ?r = Fin v \<and> v \<noteq> 0 \<longrightarrow> v < 0" by auto
    with np show "\<not> isPositive (yearlyLoanPayment ?r) \<and>
         (\<forall>v. yearlyLoanPayment ?r = Fin v \<and> v \<noteq> 0 \<longrightarrow> v < 0)" ..
  qed
  from c i m l pr yrs neg show ?thesis by blast
qed

theorem returns_without_validation_witness:
  "expectedLife_r (resolveDefaults
     (emptySettings\<lparr>cost := Some 905, downPayment := Some 5000, loanRate := Some 12,
                    loanYears := Some 1, expectedLife := Some 2\<rparr>)) \<le> 4294967295 \<and>
   0 \<le> expectedLife_r (resolveDefaults
     (emptySettings\<lparr>cost := Some 905, downPayment := Some 5000, loanRate := Some 12,
                    loanYears := Some 1, expectedLife := Some 2\<rparr>)) \<and>
   principal_of (resolveDefaults
     (emptySettings\<lparr>cost := Some 905, downPayment := Some 5000, loanRate := Some 12,
                    loanYears := Some 1, expectedLife := Some 2\<rparr>)) = - 4095 \<and>
   yearlyLoanPayment (resolveDefaults
     (emptySettings\<lparr>cost := Some 905, downPayment := Some 5000, loanRate := Some 12,
                    loanYears := Some 1, expectedLife := Some 2\<rparr>)) = Fin (- 49152) \<and>
   calculateCostOfOwnership
     (emptySettings\<lparr>cost := Some 905, downPayment := Some 5000, loanRate := Some 12,
                    loanYears := Some 1, expectedLife := Some 2\<rparr>) =
     Inr (emptySettings\<lparr>cost := Some 905, downPayment := Some 5000, loanRate := Some 12,
                         loanYears := Some 1, expectedLife := Some 2\<rparr>,
          \<lparr>yearlyBreakdown = [Fin (- 31509), Fin 10343], total = Fin (- 21166)\<rparr>)"
proof -
  let ?s = "emptySettings\<lparr>cost := Some 905, downPayment := Some 5000, loanRate := Some 12,
                    loanYears := Some 1, expectedLife := Some 2\<rparr>"
  let ?r = "\<lparr>cost_r = 905, downPayment_r = 5000, loanRate_r = 12, loanYears_r = 1,
       expectedLife_r = 2, insurancePoints_r = [(0, 14000), (1, 6500)],
       yearlyPermitCost_r = 2643,
       maintenancePoints_r = [(0, 1000), (5, 2000), (10, 3500), (15, 5000)]\<rparr>"
  have r: "resolveDefaults ?s = ?r"
    by (simp add: resolveDefaults_def emptySettings_def)
  have p: "yearlyLoanPayment ?r = Fin (- 49152)"
    by (simp add: yearlyLoanPayment_def totalLoanPayment_def calculateLoanPayments_def
          principal_of_def double_of_def overflow_bound_def underflow_bound_def Fin_minus)
  have sa: "settingsAfter ?s ins mnt = ?s" for ins mnt
    by (rule settingsAfter_unset) (simp_all add: emptySettings_def)
  have y: "yearlyPayments ?r [14000, 6500] [1000, 1200] = Inr [Fin (- 31509), Fin 10343]"
    by (simp add: p yearlyPayments_def Array_from_length_def yearCost_def readAt_def upt_rec)
  have c: "calculateCostOfOwnership ?s =
     Inr (?s, \<lparr>yearlyBreakdown = [Fin (- 31509), Fin 10343], total = Fin (- 21166)\<rparr>)"
    by (simp add: calculateCostOfOwnership_def Let_def r default_curves_two_years sa y)
  have h: "expectedLife_r (resolveDefaults ?s) \<le> 4294967295"
    "0 \<le> expectedLife_r (resolveDefaults ?s)" by (simp_all add: r)
  have q: "principal_of (resolveDefaults ?s) = - 4095" by (simp add: r principal_of_def)
  have p': "yearlyLoanPayment (resolveDefaults ?s) = Fin (- 49152)" by (simp add: r p)
  from returns_without_validation [of ?s] h c q p' show ?thesis by blast
qed

subsection \<open>An unset cost\<close>




end
